theory Spec2Isabelle
  imports Main "HOL-Library.Word"
begin

unbundle bit_operations_syntax

section \<open>Types and configuration (lcd\_config.h)\<close>

type_synonym UBYTE = "8 word"
type_synonym UWORD = "16 word"
type_synonym UDOUBLE = "32 word"

datatype pin = LCD_RST_PIN | LCD_DC_PIN | LCD_CS_PIN | LCD_BL_PIN

datatype level = FUN_LOW | FUN_HIGH

definition LCD_GPIO_INVERTED :: bool where
  "LCD_GPIO_INVERTED = False"

definition LCD_WIDTH :: UWORD where
  "LCD_WIDTH = 240"

definition LCD_HEIGHT :: UWORD where
  "LCD_HEIGHT = 240"

section \<open>The machine state\<close>

text \<open>
  The driver has no data of its own; everything it does is an effect on the SPI
  peripheral and on four GPIO lines. The state threaded through the model is

  \<^item> \<open>STATR\<close> and \<open>polls\<close>: the status register of SPI1 is volatile, so the
    value of its \<open>k\<close>-th read is \<open>STATR k\<close>, an arbitrary function, and \<open>polls\<close>
    counts the reads made so far. Only bit 1 (TXE) and bit 7 (BSY) are ever tested.
  \<^item> \<open>gpio\<close>: the level last driven on each of the four control lines.
  \<^item> \<open>calls\<close>: the calls made on the transport interface of \<open>lcd_hal.c\<close>
    (\<open>LCD_HAL_DigitalWrite\<close>, \<open>LCD_HAL_SPI_WriteByte\<close>, \<open>LCD_HAL_Delay_us\<close>,
    \<open>LCD_HAL_Delay_ms\<close>) with their arguments, in call order. This is the trace of
    signal transitions and bytes that the protocol engine emits.
  \<^item> \<open>datar\<close>: the bytes stored into the data register \<open>SPI1->DATAR\<close>, in order.
\<close>

datatype hal_call =
    DigitalWrite pin UBYTE
  | SPI_WriteByte UBYTE
  | Delay_us nat
  | Delay_ms nat

record hw =
  STATR :: "nat \<Rightarrow> UDOUBLE"
  polls :: nat
  gpio :: "pin \<Rightarrow> level"
  calls :: "hal_call list"
  datar :: "UBYTE list"

section \<open>Transport adapter (lcd\_hal.c)\<close>

text \<open>
  \<open>LCD_HAL_DigitalWrite(Pin, Value)\<close> calls \<open>funDigitalWrite\<close> with
  \<open>Value ? FUN_HIGH : FUN_LOW\<close>, or with \<open>Value ? FUN_LOW : FUN_HIGH\<close> when
  \<open>LCD_GPIO_INVERTED\<close> is set.
\<close>

definition driven_level :: "UBYTE \<Rightarrow> level" where
  "driven_level Value =
     (if LCD_GPIO_INVERTED then (if Value \<noteq> 0 then FUN_LOW else FUN_HIGH)
      else (if Value \<noteq> 0 then FUN_HIGH else FUN_LOW))"

definition LCD_HAL_DigitalWrite :: "pin \<Rightarrow> UBYTE \<Rightarrow> hw \<Rightarrow> hw" where
  "LCD_HAL_DigitalWrite Pin Value s =
     s\<lparr>gpio := (gpio s)(Pin := driven_level Value),
       calls := calls s @ [DigitalWrite Pin Value]\<rparr>"

text \<open>The initial states set by \<open>LCD_HAL_GPIO_Init\<close> (the pin modes are not modelled).\<close>

definition LCD_HAL_GPIO_Init :: "hw \<Rightarrow> hw" where
  "LCD_HAL_GPIO_Init s =
     (let s = LCD_HAL_DigitalWrite LCD_CS_PIN 1 s;
          s = LCD_HAL_DigitalWrite LCD_DC_PIN 0 s;
          s = LCD_HAL_DigitalWrite LCD_RST_PIN 1 s;
          s = LCD_HAL_DigitalWrite LCD_BL_PIN 1 s
      in s)"

definition LCD_HAL_Delay_ms :: "nat \<Rightarrow> hw \<Rightarrow> hw" where
  "LCD_HAL_Delay_ms ms s = s\<lparr>calls := calls s @ [Delay_ms ms]\<rparr>"

definition LCD_HAL_Delay_us :: "nat \<Rightarrow> hw \<Rightarrow> hw" where
  "LCD_HAL_Delay_us us s = s\<lparr>calls := calls s @ [Delay_us us]\<rparr>"

text \<open>One volatile read of \<open>SPI1->STATR\<close>: the value read, and the state after it.\<close>

definition read_STATR :: "hw \<Rightarrow> UDOUBLE" where
  "read_STATR s = STATR s (polls s)"

definition polled :: "hw \<Rightarrow> hw" where
  "polled s = s\<lparr>polls := Suc (polls s)\<rparr>"

text \<open>
  \<^verbatim>\<open>while(!(SPI1->STATR & (1 << 1)) && timeout--) {}\<close>

  Each round reads the register once. When TXE is set the loop ends and, by
  short-circuit evaluation, \<open>timeout\<close> keeps its value. Otherwise \<open>timeout--\<close> is
  evaluated: it tests the old value and then decrements the 32-bit unsigned
  counter, so the round that finds \<open>timeout = 0\<close> leaves the loop with the
  counter wrapped around to \<open>0xFFFFFFFF\<close>. The result is the state after the loop
  and the final value of \<open>timeout\<close>.
\<close>

function SPI_wait_TXE :: "hw \<Rightarrow> UDOUBLE \<Rightarrow> hw \<times> UDOUBLE" where
  "SPI_wait_TXE s timeout =
     (if read_STATR s AND push_bit 1 1 \<noteq> 0 then (polled s, timeout)
      else if timeout \<noteq> 0 then SPI_wait_TXE (polled s) (timeout - 1)
      else (polled s, timeout - 1))"
  by pat_completeness auto
termination
  by (relation "measure (\<lambda>(s, timeout). unat timeout)") (auto simp: unat_minus_one unat_gt_0)

declare SPI_wait_TXE.simps [simp del]

text \<open>\<^verbatim>\<open>while((SPI1->STATR & (1 << 7)) && timeout--) {}\<close>, used by the byte write and
  at the end of \<open>GC9A01_FillRect\<close>.\<close>

function SPI_wait_BSY :: "hw \<Rightarrow> UDOUBLE \<Rightarrow> hw \<times> UDOUBLE" where
  "SPI_wait_BSY s timeout =
     (if read_STATR s AND push_bit 7 1 = 0 then (polled s, timeout)
      else if timeout \<noteq> 0 then SPI_wait_BSY (polled s) (timeout - 1)
      else (polled s, timeout - 1))"
  by pat_completeness auto
termination
  by (relation "measure (\<lambda>(s, timeout). unat timeout)") (auto simp: unat_minus_one unat_gt_0)

declare SPI_wait_BSY.simps [simp del]

text \<open>
  \<open>LCD_HAL_SPI_WriteByte\<close>: wait for TXE, give up when the counter reads 0, store
  the byte into the data register, wait for BSY to clear. The call itself is
  entered in \<open>calls\<close> first.
\<close>

definition LCD_HAL_SPI_WriteByte :: "UBYTE \<Rightarrow> hw \<Rightarrow> hw" where
  "LCD_HAL_SPI_WriteByte Value s =
     (let s1 = s\<lparr>calls := calls s @ [SPI_WriteByte Value]\<rparr>;
          (s2, timeout) = SPI_wait_TXE s1 100000
      in if timeout = 0 then s2
         else let s3 = s2\<lparr>datar := datar s2 @ [Value]\<rparr>;
                  (s4, timeout') = SPI_wait_BSY s3 100000
              in s4)"

section \<open>Protocol engine (gc9a01\_driver.c)\<close>

subsection \<open>Communication layer\<close>

definition GC9A01_SendCommand :: "UBYTE \<Rightarrow> hw \<Rightarrow> hw" where
  "GC9A01_SendCommand cmd s =
     (let s = LCD_HAL_DigitalWrite LCD_CS_PIN 0 s;
          s = LCD_HAL_Delay_us 1 s;
          s = LCD_HAL_DigitalWrite LCD_DC_PIN 0 s;
          s = LCD_HAL_Delay_us 1 s;
          s = LCD_HAL_SPI_WriteByte cmd s;
          s = LCD_HAL_Delay_us 1 s
      in s)"

definition GC9A01_SendData :: "UBYTE \<Rightarrow> hw \<Rightarrow> hw" where
  "GC9A01_SendData data s =
     (let s = LCD_HAL_DigitalWrite LCD_DC_PIN 1 s;
          s = LCD_HAL_Delay_us 1 s;
          s = LCD_HAL_SPI_WriteByte data s;
          s = LCD_HAL_Delay_us 1 s;
          s = LCD_HAL_DigitalWrite LCD_CS_PIN 1 s;
          s = LCD_HAL_Delay_us 10 s
      in s)"

definition GC9A01_Reset :: "hw \<Rightarrow> hw" where
  "GC9A01_Reset s =
     (let s = LCD_HAL_DigitalWrite LCD_CS_PIN 0 s;
          s = LCD_HAL_Delay_ms 100 s;
          s = LCD_HAL_DigitalWrite LCD_RST_PIN 0 s;
          s = LCD_HAL_Delay_ms 100 s;
          s = LCD_HAL_DigitalWrite LCD_RST_PIN 1 s;
          s = LCD_HAL_Delay_ms 100 s
      in s)"

subsection \<open>Initialization\<close>

text \<open>
  \<open>GC9A01_InitRegisters\<close> is straight-line code: a fixed sequence of
  \<open>GC9A01_SendCommand\<close>, \<open>GC9A01_SendData\<close> and \<open>LCD_HAL_Delay_ms\<close> calls with
  constant arguments. \<open>init_script\<close> lists them in source order, one command with
  its parameter bytes per line, and \<open>init_step\<close> performs one of them.
\<close>

datatype init_call = Command UBYTE | Data UBYTE | Wait_ms nat

fun init_step :: "init_call \<Rightarrow> hw \<Rightarrow> hw" where
  "init_step (Command cmd) s = GC9A01_SendCommand cmd s"
| "init_step (Data d) s = GC9A01_SendData d s"
| "init_step (Wait_ms ms) s = LCD_HAL_Delay_ms ms s"

definition init_script :: "init_call list" where
  "init_script =
    [
     Command 0xEF,
     Command 0xEB, Data 0x14,
     Command 0xFE,
     Command 0xEF,
     Command 0xEB, Data 0x14,
     Command 0x84, Data 0x40,
     Command 0x85, Data 0xFF,
     Command 0x86, Data 0xFF,
     Command 0x87, Data 0xFF,
     Command 0x88, Data 0x0A,
     Command 0x89, Data 0x21,
     Command 0x8A, Data 0x00,
     Command 0x8B, Data 0x80,
     Command 0x8C, Data 0x01,
     Command 0x8D, Data 0x01,
     Command 0x8E, Data 0xFF,
     Command 0x8F, Data 0xFF,
     Command 0xB6, Data 0x00, Data 0x20,
     Command 0x36, Data 0x08,
     Command 0x3A, Data 0x05,
     Command 0x90, Data 0x08, Data 0x08, Data 0x08, Data 0x08,
     Command 0xBD, Data 0x06,
     Command 0xBC, Data 0x00,
     Command 0xFF, Data 0x60, Data 0x01, Data 0x04,
     Command 0xC3, Data 0x13,
     Command 0xC4, Data 0x13,
     Command 0xC9, Data 0x22,
     Command 0xBE, Data 0x11,
     Command 0xE1, Data 0x10, Data 0x0E,
     Command 0xDF, Data 0x21, Data 0x0C, Data 0x02,
     Command 0xF0, Data 0x45, Data 0x09, Data 0x08, Data 0x08, Data 0x26, Data 0x2A,
     Command 0xF1, Data 0x43, Data 0x70, Data 0x72, Data 0x36, Data 0x37, Data 0x6F,
     Command 0xF2, Data 0x45, Data 0x09, Data 0x08, Data 0x08, Data 0x26, Data 0x2A,
     Command 0xF3, Data 0x43, Data 0x70, Data 0x72, Data 0x36, Data 0x37, Data 0x6F,
     Command 0xED, Data 0x1B, Data 0x0B,
     Command 0xAE, Data 0x77,
     Command 0xCD, Data 0x63,
     Command 0x70, Data 0x07, Data 0x07, Data 0x04, Data 0x0E, Data 0x0F, Data 0x09,
       Data 0x07, Data 0x08, Data 0x03,
     Command 0xE8, Data 0x34,
     Command 0x62, Data 0x18, Data 0x0D, Data 0x71, Data 0xED, Data 0x70, Data 0x70,
       Data 0x18, Data 0x0F, Data 0x71, Data 0xEF, Data 0x70, Data 0x70,
     Command 0x63, Data 0x18, Data 0x11, Data 0x71, Data 0xF1, Data 0x70, Data 0x70,
       Data 0x18, Data 0x13, Data 0x71, Data 0xF3, Data 0x70, Data 0x70,
     Command 0x64, Data 0x28, Data 0x29, Data 0xF1, Data 0x01, Data 0xF1, Data 0x00, Data 0x07,
     Command 0x66, Data 0x3C, Data 0x00, Data 0xCD, Data 0x67, Data 0x45, Data 0x45,
       Data 0x10, Data 0x00, Data 0x00, Data 0x00,
     Command 0x67, Data 0x00, Data 0x3C, Data 0x00, Data 0x00, Data 0x00, Data 0x01,
       Data 0x54, Data 0x10, Data 0x32, Data 0x98,
     Command 0x74, Data 0x10, Data 0x85, Data 0x80, Data 0x00, Data 0x00, Data 0x4E, Data 0x00,
     Command 0x98, Data 0x3E, Data 0x07,
     Command 0x35,
     Command 0x21,
     Command 0x11, Wait_ms 120,
     Command 0x29, Wait_ms 20
    ]"

definition GC9A01_InitRegisters :: "hw \<Rightarrow> hw" where
  "GC9A01_InitRegisters s = fold init_step init_script s"

definition GC9A01_Init :: "hw \<Rightarrow> hw" where
  "GC9A01_Init s =
     (let s = GC9A01_Reset s;
          s = GC9A01_InitRegisters s
      in s)"

subsection \<open>Display control\<close>

text \<open>
  The arguments of \<open>GC9A01_SendData\<close> in \<open>GC9A01_SetWindow\<close> are computed in C's
  \<open>int\<close>: the \<open>uint16_t\<close> operand is promoted (\<open>uint\<close>), \<open>x1 - 1\<close> is \<open>-1\<close> for
  \<open>x1 = 0\<close>, the mask \<open>& 0xFF\<close> is taken on the \<open>int\<close>, and the result is converted
  to the \<open>UBYTE\<close> parameter.
\<close>

definition GC9A01_SetWindow :: "UWORD \<Rightarrow> UWORD \<Rightarrow> UWORD \<Rightarrow> UWORD \<Rightarrow> hw \<Rightarrow> hw" where
  "GC9A01_SetWindow x0 y0 x1 y1 s =
     (let s = GC9A01_SendCommand 0x2A s;
          s = GC9A01_SendData 0x00 s;
          s = GC9A01_SendData (word_of_int (uint x0 AND 0xFF)) s;
          s = GC9A01_SendData 0x00 s;
          s = GC9A01_SendData (word_of_int ((uint x1 - 1) AND 0xFF)) s;
          s = GC9A01_SendCommand 0x2B s;
          s = GC9A01_SendData 0x00 s;
          s = GC9A01_SendData (word_of_int (uint y0 AND 0xFF)) s;
          s = GC9A01_SendData 0x00 s;
          s = GC9A01_SendData (word_of_int ((uint y1 - 1) AND 0xFF)) s;
          s = GC9A01_SendCommand 0x2C s
      in s)"

subsection \<open>Drawing\<close>

text \<open>The inner loop of \<open>GC9A01_FillRect\<close>:
  \<^verbatim>\<open>for (uint16_t row = 0; row < height; row++) { WriteByte(msb); WriteByte(lsb); }\<close>\<close>

function fill_rows :: "UWORD \<Rightarrow> UWORD \<Rightarrow> UBYTE \<Rightarrow> UBYTE \<Rightarrow> hw \<Rightarrow> hw" where
  "fill_rows row height color_msb color_lsb s =
     (if row < height
      then fill_rows (row + 1) height color_msb color_lsb
             (LCD_HAL_SPI_WriteByte color_lsb (LCD_HAL_SPI_WriteByte color_msb s))
      else s)"
  by pat_completeness auto
termination
  by (relation "measure (\<lambda>(row, height, _). unat height - unat row)")
     (simp_all, unat_arith)

declare fill_rows.simps [simp del]

text \<open>The outer loop:
  \<^verbatim>\<open>for (uint16_t col = 0; col < width; col++) { ... }\<close>\<close>

function fill_cols :: "UWORD \<Rightarrow> UWORD \<Rightarrow> UWORD \<Rightarrow> UBYTE \<Rightarrow> UBYTE \<Rightarrow> hw \<Rightarrow> hw" where
  "fill_cols col width height color_msb color_lsb s =
     (if col < width
      then fill_cols (col + 1) width height color_msb color_lsb
             (fill_rows 0 height color_msb color_lsb s)
      else s)"
  by pat_completeness auto
termination
  by (relation "measure (\<lambda>(col, width, _). unat width - unat col)")
     (simp_all, unat_arith)

declare fill_cols.simps [simp del]

definition GC9A01_FillRect :: "UWORD \<Rightarrow> UWORD \<Rightarrow> UWORD \<Rightarrow> UWORD \<Rightarrow> UWORD \<Rightarrow> hw \<Rightarrow> hw" where
  "GC9A01_FillRect x0 y0 x1 y1 color s =
     (if x0 \<ge> LCD_WIDTH \<or> y0 \<ge> LCD_HEIGHT then s
      else let x1 = (if x1 > LCD_WIDTH then LCD_WIDTH else x1);
               y1 = (if y1 > LCD_HEIGHT then LCD_HEIGHT else y1)
      in if x0 \<ge> x1 \<or> y0 \<ge> y1 then s
      else let s = GC9A01_SetWindow x0 y0 x1 y1 s;
               color_msb = word_of_int (drop_bit 8 (uint color) AND 0xFF);
               color_lsb = word_of_int (uint color AND 0xFF);
               width = x1 - x0;
               height = y1 - y0;
               s = LCD_HAL_DigitalWrite LCD_DC_PIN 1 s;
               s = fill_cols 0 width height color_msb color_lsb s;
               (s, timeout) = SPI_wait_BSY s 100000;
               s = LCD_HAL_DigitalWrite LCD_CS_PIN 1 s
      in s)"


section \<open>Observing the trace\<close>

text \<open>The calls a driver function adds to the trace when it runs from state \<open>s\<close>.\<close>

definition emitted :: "(hw \<Rightarrow> hw) \<Rightarrow> hw \<Rightarrow> hal_call list" where
  "emitted f s = drop (length (calls s)) (calls (f s))"

text \<open>
  What is sent: the byte of every call of \<open>LCD_HAL_SPI_WriteByte\<close>, with the mode
  the D/C line selects at that moment. D/C low is command mode, D/C high is data mode.
\<close>

datatype dc = DC_command | DC_data

fun bytes_sent :: "dc \<Rightarrow> hal_call list \<Rightarrow> (dc \<times> UBYTE) list" where
  "bytes_sent m [] = []"
| "bytes_sent m (DigitalWrite p v # es) =
     bytes_sent
       (if p = LCD_DC_PIN then (if driven_level v = FUN_LOW then DC_command else DC_data) else m)
       es"
| "bytes_sent m (SPI_WriteByte b # es) = (m, b) # bytes_sent m es"
| "bytes_sent m (Delay_us n # es) = bytes_sent m es"
| "bytes_sent m (Delay_ms n # es) = bytes_sent m es"

text \<open>The level of a line after a trace, starting from level \<open>l\<close>.\<close>

fun line_after :: "pin \<Rightarrow> level \<Rightarrow> hal_call list \<Rightarrow> level" where
  "line_after p l [] = l"
| "line_after p l (DigitalWrite q v # es) =
     line_after p (if q = p then driven_level v else l) es"
| "line_after p l (SPI_WriteByte b # es) = line_after p l es"
| "line_after p l (Delay_us n # es) = line_after p l es"
| "line_after p l (Delay_ms n # es) = line_after p l es"

text \<open>
  The delay, in microseconds, that a trace spends in \<open>LCD_HAL_Delay_ms\<close> and
  \<open>LCD_HAL_Delay_us\<close> before its first byte is written.
\<close>

fun delay_before_byte :: "hal_call list \<Rightarrow> nat" where
  "delay_before_byte [] = 0"
| "delay_before_byte (SPI_WriteByte b # es) = 0"
| "delay_before_byte (Delay_us n # es) = n + delay_before_byte es"
| "delay_before_byte (Delay_ms n # es) = 1000 * n + delay_before_byte es"
| "delay_before_byte (DigitalWrite p v # es) = delay_before_byte es"

subsection \<open>Concrete machines\<close>

text \<open>
  The lines idle as \<open>LCD_HAL_GPIO_Init\<close> leaves them, nothing sent yet, and an SPI
  peripheral that always shows TXE set and BSY clear (\<open>hw_ready\<close>), that never
  shows TXE (\<open>hw_stuck\<close>), or that shows TXE from its 100001st read on (\<open>hw_late\<close>).
\<close>

definition idle_lines :: "pin \<Rightarrow> level" where
  "idle_lines p = (if p = LCD_DC_PIN then FUN_LOW else FUN_HIGH)"

definition hw_ready :: hw where
  "hw_ready = \<lparr>STATR = (\<lambda>k. 2), polls = 0, gpio = idle_lines, calls = [], datar = []\<rparr>"

definition hw_stuck :: hw where
  "hw_stuck = \<lparr>STATR = (\<lambda>k. 0), polls = 0, gpio = idle_lines, calls = [], datar = []\<rparr>"

definition hw_late :: hw where
  "hw_late = \<lparr>STATR = (\<lambda>k. if k < 100000 then 0 else 2), polls = 0, gpio = idle_lines,
               calls = [], datar = []\<rparr>"

subsection \<open>Sequences of driver operations\<close>




subsection \<open>Command framing\<close>

text \<open>
  The framing rule read off a trace. The bus is followed through the trace: the
  levels of chip-select and D/C; where the current transaction stands: \<open>Closed\<close>
  (nothing sent since chip-select was last released, or nothing sent at all),
  \<open>After_command\<close> (the last byte was a command byte) or \<open>In_data\<close> (the last byte
  was a data byte, and chip-select has not been released since); and what the last
  command byte opened: a pixel burst for the memory-write command \<open>0x2C\<close>, a run
  of parameter bytes for every other command.

  \<^item> A byte written with D/C low is a command byte: chip-select must be low.
  \<^item> A byte written with D/C high is a data byte. It must follow a command, and the
    first data byte after a command is written with chip-select low.
  \<^item> Chip-select is released only when a transaction is open, and closes it.

  The two disciplines differ in the data bytes after the first.
  \<open>Per_transaction\<close> is the rule of the specification: chip-select stays asserted
  from the command to the end of its data, so every data byte is written with
  chip-select low, and none after the release. \<open>Per_byte\<close> is the rule of this
  driver. In a pixel burst it is the same: every byte is written with chip-select
  low, no byte follows the release, and the burst is released before the next
  command. In a run of parameter bytes chip-select is released after every single
  byte: no byte, parameter or command, follows a parameter byte without a release
  in between, and nothing is said about the level of chip-select at a parameter
  byte that follows such a release.
\<close>

definition memory_write :: UBYTE where
  "memory_write = 0x2C"

datatype phase = Closed | After_command | In_data

datatype run = No_command | Parameters | Pixels

datatype discipline = Per_transaction | Per_byte

type_synonym bus = "level \<times> level \<times> phase \<times> run"

fun frame_step :: "discipline \<Rightarrow> bus \<Rightarrow> hal_call \<Rightarrow> bus option" where
  "frame_step d (cs, dc, ph, r) (DigitalWrite p v) =
     (if p = LCD_CS_PIN then
        (if driven_level v = FUN_LOW then Some (FUN_LOW, dc, ph, r)
         else if ph = Closed then None
         else Some (FUN_HIGH, dc, Closed, r))
      else if p = LCD_DC_PIN then Some (cs, driven_level v, ph, r)
      else Some (cs, dc, ph, r))"
| "frame_step d (cs, dc, ph, r) (SPI_WriteByte b) =
     (if dc = FUN_LOW then
        (if cs = FUN_HIGH then None
         else if d = Per_byte \<and> ph = In_data then None
         else Some (cs, dc, After_command, if b = memory_write then Pixels else Parameters))
      else if ph = Closed then
        (if d = Per_byte \<and> r = Parameters then Some (cs, dc, In_data, r) else None)
      else if cs = FUN_HIGH then None
      else if d = Per_byte \<and> ph = In_data \<and> r = Parameters then None
      else Some (cs, dc, In_data, r))"
| "frame_step d (cs, dc, ph, r) (Delay_us n) = Some (cs, dc, ph, r)"
| "frame_step d (cs, dc, ph, r) (Delay_ms n) = Some (cs, dc, ph, r)"

fun frame_run :: "discipline \<Rightarrow> bus \<Rightarrow> hal_call list \<Rightarrow> bus option" where
  "frame_run d b [] = Some b"
| "frame_run d b (e # es) =
     (case frame_step d b e of None \<Rightarrow> None | Some b' \<Rightarrow> frame_run d b' es)"

text \<open>Where the bus may stand when a driver function returns: no data run is open,
  and after a bare command chip-select is still low.\<close>

fun at_rest :: "bus \<Rightarrow> bool" where
  "at_rest (cs, dc, ph, r) = (ph = Closed \<or> (ph = After_command \<and> cs = FUN_LOW))"


text \<open>A trace is framed when the rule holds all along it, from the idle levels that
  \<open>LCD_HAL_GPIO_Init\<close> sets (chip-select high, D/C low) and no command sent, and
  leaves the bus at rest.\<close>

definition framed :: "discipline \<Rightarrow> hal_call list \<Rightarrow> bool" where
  "framed d es =
     (case frame_run d (idle_lines LCD_CS_PIN, idle_lines LCD_DC_PIN, Closed, No_command) es of
        None \<Rightarrow> False
      | Some b \<Rightarrow> at_rest b)"

section \<open>The trace of each function\<close>

lemma driven_level [simp]: "driven_level v = (if v = 0 then FUN_LOW else FUN_HIGH)"
  by (simp add: driven_level_def LCD_GPIO_INVERTED_def)

lemma idle_lines [simp]:
  "idle_lines LCD_CS_PIN = FUN_HIGH" "idle_lines LCD_DC_PIN = FUN_LOW"
  "idle_lines LCD_RST_PIN = FUN_HIGH" "idle_lines LCD_BL_PIN = FUN_HIGH"
  by (simp_all add: idle_lines_def)

lemma gpio_GPIO_Init: "gpio (LCD_HAL_GPIO_Init s) = idle_lines"
proof
  fix p show "gpio (LCD_HAL_GPIO_Init s) p = idle_lines p"
    by (cases p) (simp_all add: LCD_HAL_GPIO_Init_def LCD_HAL_DigitalWrite_def)
qed

lemma emittedI: "calls (f s) = calls s @ es \<Longrightarrow> emitted f s = es"
  by (simp add: emitted_def)

lemma calls_wait_TXE [simp]: "calls (fst (SPI_wait_TXE s t)) = calls s"
  by (induction s t rule: SPI_wait_TXE.induct)
     (subst SPI_wait_TXE.simps, simp add: polled_def)

lemma calls_wait_BSY [simp]: "calls (fst (SPI_wait_BSY s t)) = calls s"
  by (induction s t rule: SPI_wait_BSY.induct)
     (subst SPI_wait_BSY.simps, simp add: polled_def)

lemma calls_DigitalWrite [simp]:
  "calls (LCD_HAL_DigitalWrite p v s) = calls s @ [DigitalWrite p v]"
  by (simp add: LCD_HAL_DigitalWrite_def)

lemma calls_Delay_us [simp]: "calls (LCD_HAL_Delay_us n s) = calls s @ [Delay_us n]"
  by (simp add: LCD_HAL_Delay_us_def)

lemma calls_Delay_ms [simp]: "calls (LCD_HAL_Delay_ms n s) = calls s @ [Delay_ms n]"
  by (simp add: LCD_HAL_Delay_ms_def)

text \<open>Whatever the status register shows, a byte write adds exactly its own call.\<close>

lemma calls_WriteByte [simp]:
  "calls (LCD_HAL_SPI_WriteByte v s) = calls s @ [SPI_WriteByte v]"
proof -
  let ?s1 = "s\<lparr>calls := calls s @ [SPI_WriteByte v]\<rparr>"
  obtain s2 t where w: "SPI_wait_TXE ?s1 100000 = (s2, t)"
    by (cases "SPI_wait_TXE ?s1 100000")
  have c2: "calls s2 = calls s @ [SPI_WriteByte v]"
    using calls_wait_TXE [of ?s1 100000] w by simp
  obtain s4 t' where b: "SPI_wait_BSY (s2\<lparr>datar := datar s2 @ [v]\<rparr>) 100000 = (s4, t')"
    by (cases "SPI_wait_BSY (s2\<lparr>datar := datar s2 @ [v]\<rparr>) 100000")
  have c4: "calls s4 = calls s @ [SPI_WriteByte v]"
    using calls_wait_BSY [of "s2\<lparr>datar := datar s2 @ [v]\<rparr>" 100000] b c2 by simp
  show ?thesis
    by (simp add: LCD_HAL_SPI_WriteByte_def Let_def w b c2 c4)
qed

lemma calls_SendCommand:
  "calls (GC9A01_SendCommand cmd s) = calls s @
     [DigitalWrite LCD_CS_PIN 0, Delay_us 1, DigitalWrite LCD_DC_PIN 0, Delay_us 1,
      SPI_WriteByte cmd, Delay_us 1]"
  by (simp add: GC9A01_SendCommand_def)

lemma calls_SendData:
  "calls (GC9A01_SendData d s) = calls s @
     [DigitalWrite LCD_DC_PIN 1, Delay_us 1, SPI_WriteByte d, Delay_us 1,
      DigitalWrite LCD_CS_PIN 1, Delay_us 10]"
  by (simp add: GC9A01_SendData_def)

lemma calls_Reset:
  "calls (GC9A01_Reset s) = calls s @
     [DigitalWrite LCD_CS_PIN 0, Delay_ms 100, DigitalWrite LCD_RST_PIN 0, Delay_ms 100,
      DigitalWrite LCD_RST_PIN 1, Delay_ms 100]"
  by (simp add: GC9A01_Reset_def)

lemma calls_SetWindow:
  "calls (GC9A01_SetWindow x0 y0 x1 y1 s) = calls s @ emitted (GC9A01_SetWindow x0 y0 x1 y1) s'"
  by (simp add: emitted_def GC9A01_SetWindow_def calls_SendCommand calls_SendData)

subsection \<open>The pixel loops\<close>

lemma unat_succ_less: "(i::UWORD) < n \<Longrightarrow> unat n - unat i = Suc (unat n - unat (i + 1))"
  by unat_arith

lemma calls_fill_rows:
  "calls (fill_rows row height m l s) =
     calls s @ concat (replicate (unat height - unat row) [SPI_WriteByte m, SPI_WriteByte l])"
proof (induction row height m l s rule: fill_rows.induct)
  case (1 row height m l s)
  show ?case
  proof (cases "row < height")
    case True
    then show ?thesis
      using "1.IH" by (subst fill_rows.simps) (simp add: unat_succ_less [OF True])
  next
    case False
    then have "unat height - unat row = 0"
      by (simp add: word_less_nat_alt)
    with False show ?thesis
      by (subst fill_rows.simps) simp
  qed
qed

lemma concat_replicate_mult:
  "concat (replicate a (concat (replicate b xs))) = concat (replicate (a * b) xs)"
  by (induction a) (simp_all add: replicate_add)

lemma calls_fill_cols:
  "calls (fill_cols col width height m l s) =
     calls s @ concat (replicate ((unat width - unat col) * unat height)
                         [SPI_WriteByte m, SPI_WriteByte l])"
proof (induction col width height m l s rule: fill_cols.induct)
  case (1 col width height m l s)
  show ?case
  proof (cases "col < width")
    case True
    then show ?thesis
      using "1.IH"
      by (subst fill_cols.simps)
         (simp add: unat_succ_less [OF True] calls_fill_rows replicate_add)
  next
    case False
    then have "unat width - unat col = 0"
      by (simp add: word_less_nat_alt)
    with False show ?thesis
      by (subst fill_cols.simps) simp
  qed
qed

subsection \<open>Byte truncation\<close>

lemma mask8: "(0xFF::int) = mask 8" "(0xFF :: UWORD) = mask 8"
  by (simp_all add: mask_eq_exp_minus_1)

lemma of_int_low_byte: "(word_of_int (k AND 0xFF) :: UBYTE) = word_of_int k"
  unfolding mask8 by (simp add: word_of_int_eq_iff flip: take_bit_eq_mask)

lemma ucast_low_byte: "(ucast ((x::UWORD) AND 0xFF) :: UBYTE) = ucast x"
  unfolding mask8 by (rule bit_word_eqI) (auto simp: bit_simps)

lemma ucast_pred: "(ucast ((x::UWORD) - 1) :: UBYTE) = word_of_int (uint x - 1)"
proof -
  have "(ucast (x - 1) :: UBYTE) = word_of_int (uint (x - 1))"
    by simp
  also have "\<dots> = word_of_int ((uint x - 1) mod 2 ^ 16)"
    by (simp only: uint_word_ariths) simp
  also have "\<dots> = word_of_int (uint x - 1)"
    unfolding word_of_int_eq_iff take_bit_eq_mod by (simp add: mod_mod_cancel)
  finally show ?thesis .
qed

lemma promoted_start_byte: "(word_of_int (uint (x::UWORD) AND 0xFF) :: UBYTE) = ucast (x AND 0xFF)"
  by (simp only: of_int_low_byte ucast_low_byte) simp

lemma promoted_end_byte:
  "(word_of_int ((uint (x::UWORD) - 1) AND 0xFF) :: UBYTE) = ucast ((x - 1) AND 0xFF)"
  by (simp only: of_int_low_byte ucast_low_byte ucast_pred)

lemma promoted_high_byte:
  "(word_of_int (drop_bit 8 (uint (c::UWORD)) AND 0xFF) :: UBYTE) = ucast (drop_bit 8 c AND 0xFF)"
  by (rule bit_word_eqI) (auto simp: bit_simps)

lemma in_range_end_byte:
  assumes "0 < x" "x \<le> LCD_WIDTH"
  shows "(ucast ((x - 1) AND 0xFF) :: UBYTE) = of_nat (unat x - 1)"
    and "unat (of_nat (unat x - 1) :: UBYTE) = unat x - 1"
proof -
  show "(ucast ((x - 1) AND 0xFF) :: UBYTE) = of_nat (unat x - 1)"
    using assms
    by (metis ucast_low_byte less_nat_zero_code of_nat_unat unat_minus_one unsigned_0
        word_less_nat_alt)
  have "unat x \<le> 240"
    using assms by (simp add: word_le_nat_alt LCD_WIDTH_def)
  then have "unat x - 1 < 2 ^ 8" by simp
  then show "unat (of_nat (unat x - 1) :: UBYTE) = unat x - 1"
    by (simp add: unat_of_nat)
qed

subsection \<open>Filling\<close>

lemma FillRect_empty:
  "x0 \<ge> LCD_WIDTH \<or> y0 \<ge> LCD_HEIGHT \<or> x0 \<ge> min x1 LCD_WIDTH \<or> y0 \<ge> min y1 LCD_HEIGHT
   \<Longrightarrow> GC9A01_FillRect x0 y0 x1 y1 color s = s"
  by (auto simp: GC9A01_FillRect_def Let_def min_def not_less split: if_splits)

lemma calls_FillRect:
  assumes "x0 < x1" "x1 \<le> LCD_WIDTH" "y0 < y1" "y1 \<le> LCD_HEIGHT"
  shows "calls (GC9A01_FillRect x0 y0 x1 y1 color s) =
           calls s @ emitted (GC9A01_SetWindow x0 y0 x1 y1) s'
           @ [DigitalWrite LCD_DC_PIN 1]
           @ concat (replicate ((unat x1 - unat x0) * (unat y1 - unat y0))
               [SPI_WriteByte (ucast (drop_bit 8 color AND 0xFF)),
                SPI_WriteByte (ucast (color AND 0xFF))])
           @ [DigitalWrite LCD_CS_PIN 1]"
proof -
  let ?m = "ucast (drop_bit 8 color AND 0xFF) :: UBYTE"
  let ?l = "ucast (color AND 0xFF) :: UBYTE"
  let ?filled = "fill_cols 0 (x1 - x0) (y1 - y0) ?m ?l
       (LCD_HAL_DigitalWrite LCD_DC_PIN 1 (GC9A01_SetWindow x0 y0 x1 y1 s))"
  have g: "\<not> (x0 \<ge> LCD_WIDTH \<or> y0 \<ge> LCD_HEIGHT)" "\<not> x1 > LCD_WIDTH" "\<not> y1 > LCD_HEIGHT"
          "\<not> (x0 \<ge> x1 \<or> y0 \<ge> y1)"
    using assms by auto
  have w: "unat (x1 - x0) = unat x1 - unat x0" "unat (y1 - y0) = unat y1 - unat y0"
    using assms by (simp_all add: unat_sub)
  obtain s1 t where b: "SPI_wait_BSY ?filled 100000 = (s1, t)"
    by (cases "SPI_wait_BSY ?filled 100000")
  have "calls s1 = calls ?filled"
    using calls_wait_BSY [of ?filled 100000] b by simp
  then show ?thesis
    using g
    by (simp add: GC9A01_FillRect_def Let_def b calls_fill_cols w
          calls_SetWindow [of _ _ _ _ s s'] promoted_high_byte promoted_start_byte)
qed

subsection \<open>Window addressing\<close>

lemma bytes_sent_SetWindow:
  "bytes_sent m (emitted (GC9A01_SetWindow x0 y0 x1 y1) s) =
     [(DC_command, 0x2A),
      (DC_data, 0x00), (DC_data, ucast (x0 AND 0xFF)),
      (DC_data, 0x00), (DC_data, ucast ((x1 - 1) AND 0xFF)),
      (DC_command, 0x2B),
      (DC_data, 0x00), (DC_data, ucast (y0 AND 0xFF)),
      (DC_data, 0x00), (DC_data, ucast ((y1 - 1) AND 0xFF)),
      (DC_command, 0x2C)]"
  by (simp add: emitted_def GC9A01_SetWindow_def calls_SendCommand calls_SendData
        promoted_start_byte promoted_end_byte)

lemma bytes_sent_pixels:
  "bytes_sent m (concat (replicate n [SPI_WriteByte a, SPI_WriteByte b]) @ es) =
     concat (replicate n [(m, a), (m, b)]) @ bytes_sent m es"
  by (induction n) simp_all

lemma length_pairs: "length (concat (replicate n [a, b])) = 2 * n"
  by (induction n) simp_all

subsection \<open>Reset and initialization\<close>

lemma calls_init_step:
  "calls (init_step c s) = calls s @ emitted (init_step c) s'"
  by (cases c) (simp_all add: emitted_def calls_SendCommand calls_SendData)

lemma calls_fold_init_step:
  "calls (fold init_step cs s) = calls s @ concat (map (\<lambda>c. emitted (init_step c) s') cs)"
  by (induction cs arbitrary: s) (simp_all add: calls_init_step [of _ _ s'])

lemma emitted_init_step:
  "emitted (init_step (Command cmd)) s =
     [DigitalWrite LCD_CS_PIN 0, Delay_us 1, DigitalWrite LCD_DC_PIN 0, Delay_us 1,
      SPI_WriteByte cmd, Delay_us 1]"
  "emitted (init_step (Data d)) s =
     [DigitalWrite LCD_DC_PIN 1, Delay_us 1, SPI_WriteByte d, Delay_us 1,
      DigitalWrite LCD_CS_PIN 1, Delay_us 10]"
  "emitted (init_step (Wait_ms ms)) s = [Delay_ms ms]"
  by (simp_all add: emitted_def calls_SendCommand calls_SendData)

lemma emitted_Reset:
  "emitted GC9A01_Reset s =
     [DigitalWrite LCD_CS_PIN 0, Delay_ms 100, DigitalWrite LCD_RST_PIN 0, Delay_ms 100,
      DigitalWrite LCD_RST_PIN 1, Delay_ms 100]"
  by (simp add: emitted_def calls_Reset)

lemma init_script_first: "init_script = Command 0xEF # tl init_script"
  by (simp add: init_script_def)

lemma init_script_last:
  "init_script = take 182 init_script @ [Command 0x11, Wait_ms 120, Command 0x29, Wait_ms 20]"
  by (simp add: init_script_def)

lemma emitted_InitRegisters:
  "emitted GC9A01_InitRegisters s = concat (map (\<lambda>c. emitted (init_step c) s') init_script)"
  by (simp add: emitted_def GC9A01_InitRegisters_def calls_fold_init_step [of _ _ s'])

lemma emitted_Init:
  "emitted GC9A01_Init s = emitted GC9A01_Reset s' @ emitted GC9A01_InitRegisters s''"
  by (simp add: emitted_def GC9A01_Init_def GC9A01_InitRegisters_def calls_Reset
        calls_fold_init_step [of _ _ s''])

lemma line_after_append:
  "line_after p l (xs @ ys) = line_after p (line_after p l xs) ys"
  by (induction p l xs rule: line_after.induct) simp_all

subsection \<open>The busy-waits of the transport adapter\<close>

lemma wait_TXE_budget:
  "polls (fst (SPI_wait_TXE s t)) \<le> Suc (polls s + unat t)"
proof (induction s t rule: SPI_wait_TXE.induct)
  case (1 s timeout)
  show ?case
  proof (cases "read_STATR s AND push_bit 1 1 \<noteq> 0")
    case True
    then show ?thesis
      by (subst SPI_wait_TXE.simps) (simp add: polled_def)
  next
    case False
    show ?thesis
    proof (cases "timeout = 0")
      case True
      with False show ?thesis
        by (subst SPI_wait_TXE.simps) (simp add: polled_def)
    next
      case nz: False
      then have "0 < unat timeout"
        by (simp add: unat_gt_0)
      with "1.IH" False nz show ?thesis
        by (subst SPI_wait_TXE.simps) (simp add: polled_def unat_minus_one)
    qed
  qed
qed

lemma wait_BSY_budget:
  "polls (fst (SPI_wait_BSY s t)) \<le> Suc (polls s + unat t)"
proof (induction s t rule: SPI_wait_BSY.induct)
  case (1 s timeout)
  show ?case
  proof (cases "read_STATR s AND push_bit 7 1 = 0")
    case True
    then show ?thesis
      by (subst SPI_wait_BSY.simps) (simp add: polled_def)
  next
    case False
    show ?thesis
    proof (cases "timeout = 0")
      case True
      with False show ?thesis
        by (subst SPI_wait_BSY.simps) (simp add: polled_def)
    next
      case nz: False
      then have "0 < unat timeout"
        by (simp add: unat_gt_0)
      with "1.IH" False nz show ?thesis
        by (subst SPI_wait_BSY.simps) (simp add: polled_def unat_minus_one)
    qed
  qed
qed

lemma wait_TXE_others [simp]:
  "STATR (fst (SPI_wait_TXE s t)) = STATR s" "datar (fst (SPI_wait_TXE s t)) = datar s"
  "gpio (fst (SPI_wait_TXE s t)) = gpio s"
  by (induction s t rule: SPI_wait_TXE.induct; subst SPI_wait_TXE.simps; simp add: polled_def)+

lemma wait_BSY_others [simp]:
  "STATR (fst (SPI_wait_BSY s t)) = STATR s" "datar (fst (SPI_wait_BSY s t)) = datar s"
  "gpio (fst (SPI_wait_BSY s t)) = gpio s"
  by (induction s t rule: SPI_wait_BSY.induct; subst SPI_wait_BSY.simps; simp add: polled_def)+

lemma WriteByte_budget:
  "polls (LCD_HAL_SPI_WriteByte v s) \<le> polls s + 200002"
proof -
  let ?s1 = "s\<lparr>calls := calls s @ [SPI_WriteByte v]\<rparr>"
  obtain s2 t where w: "SPI_wait_TXE ?s1 100000 = (s2, t)"
    by (cases "SPI_wait_TXE ?s1 100000")
  have p2: "polls s2 \<le> polls s + 100001"
    using wait_TXE_budget [of ?s1 100000] w by simp
  let ?s3 = "s2\<lparr>datar := datar s2 @ [v]\<rparr>"
  obtain s4 t' where b: "SPI_wait_BSY ?s3 100000 = (s4, t')"
    by (cases "SPI_wait_BSY ?s3 100000")
  have p4: "polls s4 \<le> polls s2 + 100001"
    using wait_BSY_budget [of ?s3 100000] b by simp
  show ?thesis
    using p2 p4 by (simp add: LCD_HAL_SPI_WriteByte_def Let_def w b)
qed

lemma wait_TXE_never_ready:
  "\<forall>k\<ge>polls s. STATR s k AND 2 = 0 \<Longrightarrow>
   SPI_wait_TXE s t = (s\<lparr>polls := Suc (polls s + unat t)\<rparr>, - 1)"
proof (induction s t rule: SPI_wait_TXE.induct)
  case (1 s timeout)
  have clear: "read_STATR s AND push_bit 1 1 = 0"
    using "1.prems" by (simp add: read_STATR_def)
  show ?case
  proof (cases "timeout = 0")
    case True
    with clear show ?thesis
      by (subst SPI_wait_TXE.simps) (simp add: polled_def)
  next
    case False
    then have pos: "0 < unat timeout"
      by (simp add: unat_gt_0)
    have "\<forall>k\<ge>polls (polled s). STATR (polled s) k AND 2 = 0"
      using "1.prems" by (simp add: polled_def)
    with "1.IH" clear False
    have "SPI_wait_TXE (polled s) (timeout - 1) =
            (polled s\<lparr>polls := Suc (polls (polled s) + unat (timeout - 1))\<rparr>, - 1)"
      by simp
    with clear False pos show ?thesis
      by (subst SPI_wait_TXE.simps) (simp add: polled_def unat_minus_one)
  qed
qed

lemma wait_TXE_ready_after:
  "\<forall>k<n. STATR s (polls s + k) AND 2 = 0 \<Longrightarrow> STATR s (polls s + n) AND 2 \<noteq> 0 \<Longrightarrow>
   n \<le> unat t \<Longrightarrow>
   SPI_wait_TXE s t = (s\<lparr>polls := Suc (polls s + n)\<rparr>, t - of_nat n)"
proof (induction n arbitrary: s t)
  case 0
  then show ?case
    by (subst SPI_wait_TXE.simps) (simp add: polled_def read_STATR_def)
next
  case (Suc n)
  have "STATR s (polls s + 0) AND 2 = 0"
    using Suc.prems(1) by blast
  then have clear: "read_STATR s AND push_bit 1 1 = 0"
    by (simp add: read_STATR_def)
  have nz: "t \<noteq> 0"
    using Suc.prems(3) by (auto simp: unat_eq_zero)
  have "\<forall>k<n. STATR (polled s) (polls (polled s) + k) AND 2 = 0"
    using Suc.prems(1) by (auto simp: polled_def)
  moreover have "STATR (polled s) (polls (polled s) + n) AND 2 \<noteq> 0"
    using Suc.prems(2) by (simp add: polled_def)
  moreover have "n \<le> unat (t - 1)"
    using Suc.prems(3) nz by (simp add: unat_minus_one)
  ultimately have "SPI_wait_TXE (polled s) (t - 1) =
      (polled s\<lparr>polls := Suc (polls (polled s) + n)\<rparr>, t - 1 - of_nat n)"
    by (rule Suc.IH)
  with clear nz show ?case
    by (subst SPI_wait_TXE.simps) (simp add: polled_def)
qed

text \<open>On a peripheral that shows TXE at once, the byte reaches the data register.\<close>

lemma wait_TXE_ready:
  "STATR s (polls s) AND 2 \<noteq> 0 \<Longrightarrow> SPI_wait_TXE s t = (polled s, t)"
  by (subst SPI_wait_TXE.simps) (simp add: read_STATR_def)

lemma WriteByte_ready:
  assumes "STATR s (polls s) AND 2 \<noteq> 0"
  shows "datar (LCD_HAL_SPI_WriteByte v s) = datar s @ [v]"
proof -
  let ?s1 = "s\<lparr>calls := calls s @ [SPI_WriteByte v]\<rparr>"
  have w: "SPI_wait_TXE ?s1 100000 = (polled ?s1, 100000)"
    using assms by (intro wait_TXE_ready) simp
  let ?s3 = "polled ?s1\<lparr>datar := datar (polled ?s1) @ [v]\<rparr>"
  have "datar (fst (SPI_wait_BSY ?s3 100000)) = datar ?s3"
    by simp
  then show ?thesis
    by (simp add: LCD_HAL_SPI_WriteByte_def Let_def w polled_def split_beta)
qed

subsection \<open>Framing\<close>

lemma frame_run_append:
  "frame_run d b (xs @ ys) =
     (case frame_run d b xs of None \<Rightarrow> None | Some b' \<Rightarrow> frame_run d b' ys)"
  by (induction xs arbitrary: b) (simp_all split: option.splits)

lemma emitted_SendCommand:
  "emitted (GC9A01_SendCommand cmd) s =
     [DigitalWrite LCD_CS_PIN 0, Delay_us 1, DigitalWrite LCD_DC_PIN 0, Delay_us 1,
      SPI_WriteByte cmd, Delay_us 1]"
  by (simp add: emitted_def calls_SendCommand)

lemma emitted_SendData:
  "emitted (GC9A01_SendData d) s =
     [DigitalWrite LCD_DC_PIN 1, Delay_us 1, SPI_WriteByte d, Delay_us 1,
      DigitalWrite LCD_CS_PIN 1, Delay_us 10]"
  by (simp add: emitted_def calls_SendData)

lemma frame_SendCommand:
  "at_rest (cs, dc, ph, r) \<Longrightarrow>
   frame_run d (cs, dc, ph, r) (emitted (GC9A01_SendCommand cmd) s) =
     Some (FUN_LOW, FUN_LOW, After_command, if cmd = memory_write then Pixels else Parameters)"
  by (auto simp: emitted_SendCommand)

lemma frame_SendData:
  "(ph = After_command \<and> cs = FUN_LOW) \<or> (ph = Closed \<and> r = Parameters) \<Longrightarrow>
   frame_run Per_byte (cs, dc, ph, r) (emitted (GC9A01_SendData x) s) =
     Some (FUN_HIGH, FUN_HIGH, Closed, r)"
  by (auto simp: emitted_SendData)







lemma emitted_SetWindow:
  "emitted (GC9A01_SetWindow x0 y0 x1 y1) s =
     emitted (GC9A01_SendCommand 0x2A) s
     @ emitted (GC9A01_SendData 0x00) s
     @ emitted (GC9A01_SendData (ucast (x0 AND 0xFF))) s
     @ emitted (GC9A01_SendData 0x00) s
     @ emitted (GC9A01_SendData (ucast ((x1 - 1) AND 0xFF))) s
     @ emitted (GC9A01_SendCommand 0x2B) s
     @ emitted (GC9A01_SendData 0x00) s
     @ emitted (GC9A01_SendData (ucast (y0 AND 0xFF))) s
     @ emitted (GC9A01_SendData 0x00) s
     @ emitted (GC9A01_SendData (ucast ((y1 - 1) AND 0xFF))) s
     @ emitted (GC9A01_SendCommand 0x2C) s"
  by (simp add: emitted_def GC9A01_SetWindow_def calls_SendCommand calls_SendData
        promoted_start_byte promoted_end_byte)

lemma frame_SetWindow:
  "at_rest b \<Longrightarrow>
   frame_run Per_byte b (emitted (GC9A01_SetWindow x0 y0 x1 y1) s) =
     Some (FUN_LOW, FUN_LOW, After_command, Pixels)"
  by (cases b)
     (simp add: emitted_SetWindow frame_run_append frame_SendCommand frame_SendData
        memory_write_def)











text \<open>
  What the \<open>Per_byte\<close> rule excludes: a pixel burst whose bytes are sent one by one
  with \<open>GC9A01_SendData\<close>, chip-select released after each; and parameter bytes
  sent without a release between them.
\<close>

lemma per_byte_rejects_toggled_burst:
  "\<not> framed Per_byte
       (emitted (GC9A01_SetWindow 0 0 1 1) s
        @ emitted (GC9A01_SendData hi) s @ emitted (GC9A01_SendData lo) s)"
  by (simp add: framed_def frame_run_append frame_SetWindow frame_SendData)
     (simp add: emitted_SendData)

lemma per_byte_rejects_unreleased_parameters:
  "\<not> framed Per_byte
       [DigitalWrite LCD_CS_PIN 0, DigitalWrite LCD_DC_PIN 0, SPI_WriteByte 0x2A,
        DigitalWrite LCD_DC_PIN 1, SPI_WriteByte a, SPI_WriteByte b,
        DigitalWrite LCD_CS_PIN 1]"
  by (simp add: framed_def memory_write_def)

subsection \<open>The control lines\<close>

lemma gpio_Delay [simp]:
  "gpio (LCD_HAL_Delay_us n s) = gpio s" "gpio (LCD_HAL_Delay_ms n s) = gpio s"
  by (simp_all add: LCD_HAL_Delay_us_def LCD_HAL_Delay_ms_def)

lemma gpio_DigitalWrite [simp]:
  "gpio (LCD_HAL_DigitalWrite p v s) = (gpio s)(p := driven_level v)"
  by (simp add: LCD_HAL_DigitalWrite_def)

lemma gpio_WriteByte [simp]: "gpio (LCD_HAL_SPI_WriteByte v s) = gpio s"
proof -
  let ?s1 = "s\<lparr>calls := calls s @ [SPI_WriteByte v]\<rparr>"
  obtain s2 t where w: "SPI_wait_TXE ?s1 100000 = (s2, t)"
    by (cases "SPI_wait_TXE ?s1 100000")
  have g2: "gpio s2 = gpio s"
    using wait_TXE_others(3) [of ?s1 100000] w by simp
  obtain s4 t' where b: "SPI_wait_BSY (s2\<lparr>datar := datar s2 @ [v]\<rparr>) 100000 = (s4, t')"
    by (cases "SPI_wait_BSY (s2\<lparr>datar := datar s2 @ [v]\<rparr>) 100000")
  have g4: "gpio s4 = gpio s"
    using wait_BSY_others(3) [of "s2\<lparr>datar := datar s2 @ [v]\<rparr>" 100000] b g2 by simp
  show ?thesis
    by (simp add: LCD_HAL_SPI_WriteByte_def Let_def w b g2 g4)
qed

lemma gpio_SendCommand:
  "gpio (GC9A01_SendCommand cmd s) = (gpio s)(LCD_CS_PIN := FUN_LOW, LCD_DC_PIN := FUN_LOW)"
  by (simp add: GC9A01_SendCommand_def)


lemma Init_last_steps:
  "GC9A01_Init s =
     LCD_HAL_Delay_ms 20 (GC9A01_SendCommand 0x29 (LCD_HAL_Delay_ms 120 (GC9A01_SendCommand 0x11
       (fold init_step (take 182 init_script) (GC9A01_Reset s)))))"
proof -
  have "fold init_step init_script (GC9A01_Reset s) =
        fold init_step [Command 0x11, Wait_ms 120, Command 0x29, Wait_ms 20]
          (fold init_step (take 182 init_script) (GC9A01_Reset s))"
    by (subst init_script_last) (simp only: fold_append comp_apply)
  then show ?thesis
    by (simp add: GC9A01_Init_def GC9A01_InitRegisters_def)
qed

section \<open>Properties of the driver\<close>

text \<open>
  C1. For every rectangle with \<open>x0 < x1 \<le> 240\<close> and \<open>y0 < y1 \<le> 240\<close> and every
  16-bit colour, what \<open>GC9A01_FillRect\<close> emits is the addressing sequence of
  \<open>GC9A01_SetWindow\<close>, one selection of data mode, then
  \<open>(x1 - x0) * (y1 - y0)\<close> consecutive pairs of bytes, each pair being the high byte
  \<open>(color >> 8) & 0xFF\<close> followed by the low byte \<open>color & 0xFF\<close>, and finally the
  release of chip-select. Seen by the controller, the bytes after those of the
  addressing sequence are all data bytes, \<open>2 * (x1 - x0) * (y1 - y0)\<close> of them.
\<close>

theorem FillRect_pixel_stream:
  assumes "x0 < x1" "x1 \<le> 240" "y0 < y1" "y1 \<le> 240"
  shows "emitted (GC9A01_FillRect x0 y0 x1 y1 color) s =
           emitted (GC9A01_SetWindow x0 y0 x1 y1) s
           @ [DigitalWrite LCD_DC_PIN 1]
           @ concat (replicate ((unat x1 - unat x0) * (unat y1 - unat y0))
               [SPI_WriteByte (ucast (drop_bit 8 color AND 0xFF)),
                SPI_WriteByte (ucast (color AND 0xFF))])
           @ [DigitalWrite LCD_CS_PIN 1]
         \<and> bytes_sent m (emitted (GC9A01_FillRect x0 y0 x1 y1 color) s) =
           bytes_sent m (emitted (GC9A01_SetWindow x0 y0 x1 y1) s)
           @ concat (replicate ((unat x1 - unat x0) * (unat y1 - unat y0))
               [(DC_data, ucast (drop_bit 8 color AND 0xFF)), (DC_data, ucast (color AND 0xFF))])
         \<and> length (concat (replicate ((unat x1 - unat x0) * (unat y1 - unat y0))
               [(DC_data, ucast (drop_bit 8 color AND 0xFF) :: UBYTE),
                (DC_data, ucast (color AND 0xFF))]))
             = 2 * (unat x1 - unat x0) * (unat y1 - unat y0)"
proof -
  let ?pixels = "concat (replicate ((unat x1 - unat x0) * (unat y1 - unat y0))
               [SPI_WriteByte (ucast (drop_bit 8 color AND 0xFF)),
                SPI_WriteByte (ucast (color AND 0xFF))])"
  have "x1 \<le> LCD_WIDTH" "y1 \<le> LCD_HEIGHT"
    using assms by (simp_all add: LCD_WIDTH_def LCD_HEIGHT_def)
  from calls_FillRect [OF assms(1) this(1) assms(3) this(2), of color s s]
  have e: "emitted (GC9A01_FillRect x0 y0 x1 y1 color) s =
           emitted (GC9A01_SetWindow x0 y0 x1 y1) s
           @ [DigitalWrite LCD_DC_PIN 1] @ ?pixels @ [DigitalWrite LCD_CS_PIN 1]"
    by (intro emittedI) simp
  have "bytes_sent m (emitted (GC9A01_SetWindow x0 y0 x1 y1) s @ DigitalWrite LCD_DC_PIN 1 # es) =
          bytes_sent m (emitted (GC9A01_SetWindow x0 y0 x1 y1) s) @ bytes_sent DC_data es" for es
    by (simp add: emitted_SetWindow emitted_SendCommand emitted_SendData)
  then have b: "bytes_sent m (emitted (GC9A01_FillRect x0 y0 x1 y1 color) s) =
           bytes_sent m (emitted (GC9A01_SetWindow x0 y0 x1 y1) s)
           @ concat (replicate ((unat x1 - unat x0) * (unat y1 - unat y0))
               [(DC_data, ucast (drop_bit 8 color AND 0xFF)), (DC_data, ucast (color AND 0xFF))])"
    by (simp add: e bytes_sent_pixels)
  show ?thesis
    using e b by (simp add: length_pairs mult.assoc)
qed

text \<open>C1 at the rectangle \<open>(10, 10, 12, 11)\<close> with colour \<open>0x07E0\<close>: two pixels.\<close>

theorem FillRect_pixel_stream_witness:
  "emitted (GC9A01_FillRect 10 10 12 11 0x07E0) hw_ready =
     emitted (GC9A01_SetWindow 10 10 12 11) hw_ready
     @ [DigitalWrite LCD_DC_PIN 1,
        SPI_WriteByte 0x07, SPI_WriteByte 0xE0, SPI_WriteByte 0x07, SPI_WriteByte 0xE0,
        DigitalWrite LCD_CS_PIN 1]"
proof -
  have n: "(unat (12::UWORD) - unat (10::UWORD)) * (unat (11::UWORD) - unat (10::UWORD))
             = Suc (Suc 0)"
    by simp
  have m: "(ucast (drop_bit 8 (0x07E0::UWORD) AND 0xFF) :: UBYTE) = 0x07"
    by simp
  have l: "(ucast ((0x07E0::UWORD) AND 0xFF) :: UBYTE) = 0xE0"
    by simp
  have h: "(10::UWORD) < 12" "(12::UWORD) \<le> 240" "(10::UWORD) < 11" "(11::UWORD) \<le> 240"
    by simp_all
  from FillRect_pixel_stream [OF h, of "0x07E0" hw_ready DC_command]
  show ?thesis
    unfolding n m l by simp
qed




text \<open>
  C3. The trace of \<open>GC9A01_Init\<close> up to its first command byte: reset is held low
  for 100 ms and released, and the first command byte \<open>0xEF\<close> is written after
  delays of 100 ms and twice 1 us, 100002 us in all. That is short of the 120 ms
  which the comment above \<open>GC9A01_Reset\<close> requires after the release.
\<close>

theorem Reset_release_settle:
  "take 11 (emitted GC9A01_Init s) =
     [DigitalWrite LCD_CS_PIN 0, Delay_ms 100,
      DigitalWrite LCD_RST_PIN 0, Delay_ms 100,
      DigitalWrite LCD_RST_PIN 1, Delay_ms 100,
      DigitalWrite LCD_CS_PIN 0, Delay_us 1, DigitalWrite LCD_DC_PIN 0, Delay_us 1,
      SPI_WriteByte 0xEF] \<and>
   delay_before_byte
     (tl (dropWhile (\<lambda>e. e \<noteq> DigitalWrite LCD_RST_PIN 1) (emitted GC9A01_Init s))) = 100002"
proof -
  have "emitted GC9A01_Init s =
     [DigitalWrite LCD_CS_PIN 0, Delay_ms 100,
      DigitalWrite LCD_RST_PIN 0, Delay_ms 100,
      DigitalWrite LCD_RST_PIN 1, Delay_ms 100,
      DigitalWrite LCD_CS_PIN 0, Delay_us 1, DigitalWrite LCD_DC_PIN 0, Delay_us 1,
      SPI_WriteByte 0xEF, Delay_us 1]
     @ concat (map (\<lambda>c. emitted (init_step c) s) (tl init_script))"
    by (subst emitted_Init [of _ s s], subst emitted_InitRegisters [of _ s], subst init_script_first)
       (simp add: emitted_init_step emitted_Reset)
  then show ?thesis
    by simp
qed

text \<open>
  C4. \<open>GC9A01_SetWindow(0,0,240,240)\<close> sends command \<open>0x2A\<close> with the data bytes
  \<open>0x00, 0x00, 0x00, 0xEF\<close>, command \<open>0x2B\<close> with the data bytes
  \<open>0x00, 0x00, 0x00, 0xEF\<close>, and command \<open>0x2C\<close>. For coordinates in range
  (\<open>x0 < x1 \<le> 240\<close>, \<open>y0 < y1 \<le> 240\<close>) the start bytes are \<open>x0\<close> and \<open>y0\<close> and the
  end bytes are \<open>x1 - 1\<close> and \<open>y1 - 1\<close>, as numbers.
\<close>

theorem SetWindow_encoding:
  "bytes_sent m (emitted (GC9A01_SetWindow 0 0 240 240) s) =
     [(DC_command, 0x2A), (DC_data, 0x00), (DC_data, 0x00), (DC_data, 0x00), (DC_data, 0xEF),
      (DC_command, 0x2B), (DC_data, 0x00), (DC_data, 0x00), (DC_data, 0x00), (DC_data, 0xEF),
      (DC_command, 0x2C)]
   \<and> (x0 < x1 \<and> x1 \<le> 240 \<and> y0 < y1 \<and> y1 \<le> 240 \<longrightarrow>
        bytes_sent m (emitted (GC9A01_SetWindow x0 y0 x1 y1) s) =
          [(DC_command, 0x2A),
           (DC_data, 0x00), (DC_data, ucast x0),
           (DC_data, 0x00), (DC_data, of_nat (unat x1 - 1)),
           (DC_command, 0x2B),
           (DC_data, 0x00), (DC_data, ucast y0),
           (DC_data, 0x00), (DC_data, of_nat (unat y1 - 1)),
           (DC_command, 0x2C)]
        \<and> unat (ucast x0 :: UBYTE) = unat x0
        \<and> unat (of_nat (unat x1 - 1) :: UBYTE) = unat x1 - 1
        \<and> unat (ucast y0 :: UBYTE) = unat y0
        \<and> unat (of_nat (unat y1 - 1) :: UBYTE) = unat y1 - 1)"
proof -
  have full: "bytes_sent m (emitted (GC9A01_SetWindow 0 0 240 240) s) =
     [(DC_command, 0x2A), (DC_data, 0x00), (DC_data, 0x00), (DC_data, 0x00), (DC_data, 0xEF),
      (DC_command, 0x2B), (DC_data, 0x00), (DC_data, 0x00), (DC_data, 0x00), (DC_data, 0xEF),
      (DC_command, 0x2C)]"
    by (simp add: bytes_sent_SetWindow)
  have start: "(ucast (a AND 0xFF) :: UBYTE) = ucast a \<and> unat (ucast a :: UBYTE) = unat a"
    if "a < b" "b \<le> 240" for a b :: UWORD
  proof -
    have "unat a < 240"
      using that by (simp add: word_less_nat_alt word_le_nat_alt)
    then have "unat a < 2 ^ 8" by simp
    then show ?thesis
      by (simp add: ucast_low_byte unsigned_ucast_eq take_bit_nat_eq_self)
  qed
  have stop: "(ucast ((b - 1) AND 0xFF) :: UBYTE) = of_nat (unat b - 1)
               \<and> unat (of_nat (unat b - 1) :: UBYTE) = unat b - 1"
    if "a < b" "b \<le> 240" for a b :: UWORD
  proof -
    have "0 < b" using that(1) by unat_arith
    moreover have "b \<le> LCD_WIDTH" using that(2) by (simp add: LCD_WIDTH_def)
    ultimately show ?thesis
      using in_range_end_byte [of b] by simp
  qed
  show ?thesis
    using full start [of x0 x1] stop [of x0 x1] start [of y0 y1] stop [of y0 y1]
    by (simp add: bytes_sent_SetWindow)
qed

text \<open>C4 at the window \<open>(10, 20, 30, 40)\<close>: end bytes 29 and 39.\<close>

theorem SetWindow_encoding_witness:
  "bytes_sent DC_command (emitted (GC9A01_SetWindow 10 20 30 40) hw_ready) =
     [(DC_command, 0x2A), (DC_data, 0), (DC_data, 10), (DC_data, 0), (DC_data, 29),
      (DC_command, 0x2B), (DC_data, 0), (DC_data, 20), (DC_data, 0), (DC_data, 39),
      (DC_command, 0x2C)]"
  using SetWindow_encoding [where ?x0.0 = 10 and ?y0.0 = 20 and ?x1.0 = 30 and ?y1.0 = 40
      and m = DC_command and s = hw_ready]
  by simp

text \<open>
  C5. \<open>GC9A01_FillRect(50,50,50,80,c)\<close> and \<open>GC9A01_FillRect(10,300,20,310,c)\<close> leave the
  state as it was and emit nothing, for every colour; and so does every call whose
  rectangle is empty after clamping \<open>x1\<close> and \<open>y1\<close> to 240, or starts outside the
  panel. The function has no error result: it just returns.
\<close>

theorem FillRect_empty_noop:
  "GC9A01_FillRect 50 50 50 80 c s = s \<and> emitted (GC9A01_FillRect 50 50 50 80 c) s = [] \<and>
   GC9A01_FillRect 10 300 20 310 c s = s \<and> emitted (GC9A01_FillRect 10 300 20 310 c) s = [] \<and>
   (x0 \<ge> min x1 240 \<or> y0 \<ge> min y1 240 \<or> x0 \<ge> 240 \<or> y0 \<ge> 240 \<longrightarrow>
      GC9A01_FillRect x0 y0 x1 y1 c s = s \<and> emitted (GC9A01_FillRect x0 y0 x1 y1 c) s = [])"
proof -
  have a: "GC9A01_FillRect 50 50 50 80 c s = s"
    by (rule FillRect_empty) (simp add: LCD_WIDTH_def LCD_HEIGHT_def)
  have b: "GC9A01_FillRect 10 300 20 310 c s = s"
    by (rule FillRect_empty) (simp add: LCD_WIDTH_def LCD_HEIGHT_def)
  have g: "GC9A01_FillRect x0 y0 x1 y1 c s = s"
    if "x0 \<ge> min x1 240 \<or> y0 \<ge> min y1 240 \<or> x0 \<ge> 240 \<or> y0 \<ge> 240"
    using that by (intro FillRect_empty) (auto simp: LCD_WIDTH_def LCD_HEIGHT_def)
  show ?thesis
    using a b g by (simp add: emitted_def)
qed

text \<open>C5 at \<open>(100, 200, 50, 210)\<close>, where \<open>x0 \<ge> x1\<close>.\<close>

theorem FillRect_empty_noop_witness:
  "GC9A01_FillRect 100 200 50 210 0xF800 hw_ready = hw_ready \<and>
   emitted (GC9A01_FillRect 100 200 50 210 0xF800) hw_ready = []"
  using FillRect_empty_noop [where ?x0.0 = 100 and ?y0.0 = 200 and ?x1.0 = 50 and ?y1.0 = 210
      and c = "0xF800" and s = hw_ready]
  by simp

text \<open>
  C6. For \<open>x0 < 240\<close> and \<open>y0 < 240\<close>, \<open>GC9A01_FillRect(x0,y0,300,300,c)\<close> ends in the
  same state as \<open>GC9A01_FillRect(x0,y0,240,240,c)\<close> and emits the same trace, call for
  call.
\<close>

theorem FillRect_clamp:
  assumes "x0 < 240" "y0 < 240"
  shows "GC9A01_FillRect x0 y0 300 300 c s = GC9A01_FillRect x0 y0 240 240 c s \<and>
         emitted (GC9A01_FillRect x0 y0 300 300 c) s = emitted (GC9A01_FillRect x0 y0 240 240 c) s"
proof -
  have "GC9A01_FillRect x0 y0 300 300 c s = GC9A01_FillRect x0 y0 240 240 c s"
    by (simp add: GC9A01_FillRect_def LCD_WIDTH_def LCD_HEIGHT_def)
  then show ?thesis
    by (simp add: emitted_def)
qed

text \<open>C6 at \<open>x0 = 7\<close>, \<open>y0 = 9\<close>.\<close>

theorem FillRect_clamp_witness:
  "GC9A01_FillRect 7 9 300 300 0x001F hw_ready = GC9A01_FillRect 7 9 240 240 0x001F hw_ready \<and>
   emitted (GC9A01_FillRect 7 9 300 300 0x001F) hw_ready =
     emitted (GC9A01_FillRect 7 9 240 240 0x001F) hw_ready"
  using FillRect_clamp [of 7 9 "0x001F" hw_ready]
  by simp

text \<open>
  C7. \<open>GC9A01_Init\<close> is \<open>GC9A01_Reset\<close> followed by the replay of the fixed
  initialization script, and what the script emits ends with the sleep-out command
  \<open>0x11\<close>, a delay of 120 ms, the display-on command \<open>0x29\<close> and a delay of 20 ms;
  no byte is written after display-on.
\<close>

theorem Init_is_reset_then_script:
  "GC9A01_Init s = fold init_step init_script (GC9A01_Reset s) \<and>
   emitted GC9A01_Init s = emitted GC9A01_Reset s @ emitted GC9A01_InitRegisters (GC9A01_Reset s) \<and>
   (\<exists>before. emitted GC9A01_InitRegisters s' =
      before @
      [DigitalWrite LCD_CS_PIN 0, Delay_us 1, DigitalWrite LCD_DC_PIN 0, Delay_us 1,
       SPI_WriteByte 0x11, Delay_us 1,
       Delay_ms 120,
       DigitalWrite LCD_CS_PIN 0, Delay_us 1, DigitalWrite LCD_DC_PIN 0, Delay_us 1,
       SPI_WriteByte 0x29, Delay_us 1,
       Delay_ms 20])"
proof -
  have "emitted GC9A01_InitRegisters s' =
      concat (map (\<lambda>c. emitted (init_step c) s') (take 182 init_script)) @
      [DigitalWrite LCD_CS_PIN 0, Delay_us 1, DigitalWrite LCD_DC_PIN 0, Delay_us 1,
       SPI_WriteByte 0x11, Delay_us 1,
       Delay_ms 120,
       DigitalWrite LCD_CS_PIN 0, Delay_us 1, DigitalWrite LCD_DC_PIN 0, Delay_us 1,
       SPI_WriteByte 0x29, Delay_us 1,
       Delay_ms 20]"
    by (subst emitted_InitRegisters [of _ s'], subst init_script_last)
       (simp add: emitted_init_step del: take_append)
  then show ?thesis
    by (auto simp: GC9A01_Init_def GC9A01_InitRegisters_def emitted_Init [of s s "GC9A01_Reset s"])
qed

text \<open>
  C8. Both busy-waits are bounded: a byte write reads the status register at most
  200002 times and the wait at the end of \<open>GC9A01_FillRect\<close> at most 100001 times,
  whatever the register shows, so both always return. But a timed-out wait for TXE
  is not abandoned: on \<open>hw_stuck\<close> the counter leaves the loop as \<open>0xFFFFFFFF\<close>, the
  test \<open>timeout == 0\<close> fails and the byte is stored into the data register after
  100001 reads. The test succeeds only when TXE appears on the very last read, as on
  \<open>hw_late\<close>, and then the byte is dropped although the peripheral is ready.
\<close>

theorem WriteByte_timeout_not_abandoned:
  "polls (LCD_HAL_SPI_WriteByte v s) \<le> polls s + 200002 \<and>
   polls (fst (SPI_wait_BSY s 100000)) \<le> polls s + 100001 \<and>
   LCD_HAL_SPI_WriteByte v hw_stuck =
     hw_stuck\<lparr>polls := 100002, calls := [SPI_WriteByte v], datar := [v]\<rparr> \<and>
   LCD_HAL_SPI_WriteByte v hw_late =
     hw_late\<lparr>polls := 100001, calls := [SPI_WriteByte v], datar := []\<rparr>"
proof -
  let ?s1 = "hw_stuck\<lparr>calls := calls hw_stuck @ [SPI_WriteByte v]\<rparr>"
  have "\<forall>k\<ge>polls ?s1. STATR ?s1 k AND 2 = 0"
    by (simp add: hw_stuck_def)
  from wait_TXE_never_ready [OF this, of 100000]
  have w: "SPI_wait_TXE ?s1 100000 = (?s1\<lparr>polls := 100001\<rparr>, - 1)"
    by (simp add: hw_stuck_def)
  have b: "SPI_wait_BSY (?s1\<lparr>polls := 100001, datar := [v]\<rparr>) 100000 =
             (?s1\<lparr>polls := 100002, datar := [v]\<rparr>, 100000)"
    by (subst SPI_wait_BSY.simps) (simp add: hw_stuck_def read_STATR_def polled_def)
  have stuck: "LCD_HAL_SPI_WriteByte v hw_stuck =
     hw_stuck\<lparr>polls := 100002, calls := [SPI_WriteByte v], datar := [v]\<rparr>"
    using b by (simp add: LCD_HAL_SPI_WriteByte_def Let_def w) (simp add: hw_stuck_def)
  let ?l1 = "hw_late\<lparr>calls := calls hw_late @ [SPI_WriteByte v]\<rparr>"
  have "\<forall>k<100000. STATR ?l1 (polls ?l1 + k) AND 2 = 0"
       "STATR ?l1 (polls ?l1 + 100000) AND 2 \<noteq> 0" "100000 \<le> unat (100000 :: UDOUBLE)"
    by (simp_all add: hw_late_def)
  from wait_TXE_ready_after [OF this]
  have "SPI_wait_TXE ?l1 100000 = (?l1\<lparr>polls := 100001\<rparr>, 0)"
    by (simp add: hw_late_def)
  then have late: "LCD_HAL_SPI_WriteByte v hw_late =
     hw_late\<lparr>polls := 100001, calls := [SPI_WriteByte v], datar := []\<rparr>"
    by (simp add: LCD_HAL_SPI_WriteByte_def Let_def) (simp add: hw_late_def)
  show ?thesis
    using WriteByte_budget [of v s] wait_BSY_budget [of s 100000] stuck late by simp
qed

text \<open>
  C9. \<open>GC9A01_SetWindow\<close> checks nothing: for all 16-bit arguments the start bytes
  are \<open>x0 & 0xFF\<close> and \<open>y0 & 0xFF\<close> and the end bytes are \<open>(x1 - 1) & 0xFF\<close> and
  \<open>(y1 - 1) & 0xFF\<close> with the subtraction wrapping in 16 bits, so that for
  \<open>x1 = 0\<close> the column end byte is \<open>0xFF\<close> and for \<open>y1 = 0\<close> the row end byte is
  \<open>0xFF\<close>. The function has no failure path.
\<close>

theorem SetWindow_unchecked:
  "bytes_sent m (emitted (GC9A01_SetWindow x0 y0 x1 y1) s) =
     [(DC_command, 0x2A),
      (DC_data, 0x00), (DC_data, ucast (x0 AND 0xFF)),
      (DC_data, 0x00), (DC_data, ucast ((x1 - 1) AND 0xFF)),
      (DC_command, 0x2B),
      (DC_data, 0x00), (DC_data, ucast (y0 AND 0xFF)),
      (DC_data, 0x00), (DC_data, ucast ((y1 - 1) AND 0xFF)),
      (DC_command, 0x2C)]
   \<and> bytes_sent m (emitted (GC9A01_SetWindow x0 y0 0 y1) s) =
     [(DC_command, 0x2A),
      (DC_data, 0x00), (DC_data, ucast (x0 AND 0xFF)),
      (DC_data, 0x00), (DC_data, 0xFF),
      (DC_command, 0x2B),
      (DC_data, 0x00), (DC_data, ucast (y0 AND 0xFF)),
      (DC_data, 0x00), (DC_data, ucast ((y1 - 1) AND 0xFF)),
      (DC_command, 0x2C)]
   \<and> bytes_sent m (emitted (GC9A01_SetWindow x0 y0 x1 0) s) =
     [(DC_command, 0x2A),
      (DC_data, 0x00), (DC_data, ucast (x0 AND 0xFF)),
      (DC_data, 0x00), (DC_data, ucast ((x1 - 1) AND 0xFF)),
      (DC_command, 0x2B),
      (DC_data, 0x00), (DC_data, ucast (y0 AND 0xFF)),
      (DC_data, 0x00), (DC_data, 0xFF),
      (DC_command, 0x2C)]"
  by (simp add: bytes_sent_SetWindow)

text \<open>
  C10. When \<open>GC9A01_Init\<close> returns, the chip-select line is low, whatever the
  state before: \<open>GC9A01_SendCommand\<close> always leaves it low, and nothing after the
  last command of the script drives it. The same read off the trace: the last level
  driven on chip-select is low.
\<close>

theorem Init_leaves_CS_asserted:
  "gpio (GC9A01_Init s) LCD_CS_PIN = FUN_LOW \<and>
   gpio (GC9A01_SendCommand cmd s) LCD_CS_PIN = FUN_LOW \<and>
   line_after LCD_CS_PIN l (emitted GC9A01_Init s) = FUN_LOW \<and>
   line_after LCD_CS_PIN l (emitted (GC9A01_SendCommand cmd) s) = FUN_LOW"
proof -
  have g: "gpio (GC9A01_Init s) LCD_CS_PIN = FUN_LOW"
    by (simp add: Init_last_steps gpio_SendCommand)
  have "emitted GC9A01_Init s = (emitted GC9A01_Reset s @
          concat (map (\<lambda>c. emitted (init_step c) s) (take 182 init_script))) @
      [DigitalWrite LCD_CS_PIN 0, Delay_us 1, DigitalWrite LCD_DC_PIN 0, Delay_us 1,
       SPI_WriteByte 0x11, Delay_us 1,
       Delay_ms 120,
       DigitalWrite LCD_CS_PIN 0, Delay_us 1, DigitalWrite LCD_DC_PIN 0, Delay_us 1,
       SPI_WriteByte 0x29, Delay_us 1,
       Delay_ms 20]"
    by (subst emitted_Init [of _ s s], subst emitted_InitRegisters [of _ s], subst init_script_last)
       (simp add: emitted_init_step del: take_append)
  then have e: "line_after LCD_CS_PIN l (emitted GC9A01_Init s) = FUN_LOW"
    by (simp only: line_after_append) simp
  have c: "line_after LCD_CS_PIN l (emitted (GC9A01_SendCommand cmd) s) = FUN_LOW"
    by (simp add: emitted_SendCommand)
  show ?thesis
    using g e c by (simp add: gpio_SendCommand)
qed

end
